theory Spec2Isabelle
  imports Complex_Main
begin

section \<open>Numbers, errors and library functions\<close>

text \<open>
  The loan engine of \<^verbatim>\<open>models.py\<close> computes on Python floats and integers.  Every finite
  float is a rational number, so a float is modelled as a \<^typ>\<open>rat\<close> and the arithmetic
  operations as the exact ones: the model has no representation error, no infinity and no
  NaN.  The exceptions of the float operations are kept: a division whose divisor is
  exactly zero raises \<^verbatim>\<open>ZeroDivisionError\<close>, \<^verbatim>\<open>math.pow\<close> of zero to a negative power raises
  \<^verbatim>\<open>ValueError\<close>, and \<^verbatim>\<open>math.pow\<close> raises \<^verbatim>\<open>OverflowError\<close> when its result is beyond the
  range of a double.  Python integers are \<^typ>\<open>int\<close>.

  The exact operations differ from the float ones where a computed value falls on a
  boundary that the representation error moves: a divisor that is zero only after rounding
  (\<^verbatim>\<open>1 + r\<close> is \<^verbatim>\<open>1.0\<close> for a rate \<open>r\<close> below half a unit in the last place), a value half way
  between two multiples of \<open>10\<^sup>-\<^sup>2\<close>, a ratio equal to its threshold.  The statements below
  are about the control flow and about values away from such boundaries; the closed
  evaluations use inputs on which both arithmetics give the same result.
\<close>

datatype py_error = ZeroDivisionError | ValueError | OverflowError

text \<open>
  \<^verbatim>\<open>round(x, ndigits)\<close> rounds to the nearest multiple of \<open>10\<^sup>-\<^sup>n\<close>, and a value exactly
  half way between two of them goes to the one whose last digit is even.
\<close>

definition round_half_even :: "rat \<Rightarrow> int" where
  "round_half_even x =
     (let f = \<lfloor>x\<rfloor>; d = x - of_int f
      in if d < 1 / 2 then f
         else if 1 / 2 < d then f + 1
         else if even f then f else f + 1)"

definition py_round :: "rat \<Rightarrow> nat \<Rightarrow> rat" where
  "py_round x ndigits = of_int (round_half_even (x * 10 ^ ndigits)) / 10 ^ ndigits"

text \<open>
  \<^verbatim>\<open>math.pow(x, n)\<close> for an integer exponent \<open>n\<close>.  The library raises \<^verbatim>\<open>ValueError\<close> for
  zero to a negative power and \<^verbatim>\<open>OverflowError\<close> when the result is infinite for finite
  arguments, that is when the magnitude of the power reaches \<open>DBL_OVERFLOW\<close>, the least
  magnitude that rounds to infinity: the largest double \<open>2\<^sup>1\<^sup>0\<^sup>2\<^sup>4 - 2\<^sup>9\<^sup>7\<^sup>1\<close> plus half a unit
  in its last place.
\<close>

definition DBL_OVERFLOW :: rat where
  "DBL_OVERFLOW = 2 ^ 1024 - 2 ^ 970"

definition math_pow :: "rat \<Rightarrow> int \<Rightarrow> py_error + rat" where
  "math_pow x n =
     (if x = 0 \<and> n < 0 then Inl ValueError
      else if DBL_OVERFLOW \<le> \<bar>x powi n\<bar> then Inl OverflowError
      else Inr (x powi n))"

text \<open>
  Float true division \<^verbatim>\<open>a / b\<close>: it raises when the divisor is zero.  Where the source
  divides by a non-zero literal (\<^verbatim>\<open>/ 12\<close>, \<^verbatim>\<open>/ 100\<close>, \<^verbatim>\<open>/ 365.25\<close>) the model writes the
  plain division.
\<close>

definition truediv :: "rat \<Rightarrow> rat \<Rightarrow> py_error + rat" where
  "truediv a b = (if b = 0 then Inl ZeroDivisionError else Inr (a / b))"

subsection \<open>datetime\<close>

text \<open>
  A \<^verbatim>\<open>datetime\<close> is its calendar date and the time of day, the latter held as one number
  of microseconds since midnight.  The day count is the proleptic Gregorian ordinal of the
  standard library (\<^verbatim>\<open>_ymd2ord\<close>, \<^verbatim>\<open>_ord2ymd\<close>: day 1 is 0001-01-01); a month is always in
  \<open>1..12\<close>.  The library's upper limit of year 9999 is not modelled.
\<close>

record datetime =
  dt_year :: int
  dt_month :: int
  dt_day :: int
  dt_micros :: int

definition is_leap :: "int \<Rightarrow> bool" where
  "is_leap y = (y mod 4 = 0 \<and> (y mod 100 \<noteq> 0 \<or> y mod 400 = 0))"

definition days_before_year :: "int \<Rightarrow> int" where
  "days_before_year year = (let y = year - 1 in y * 365 + y div 4 - y div 100 + y div 400)"

definition DAYS_IN_MONTH :: "int list" where
  "DAYS_IN_MONTH = [31, 28, 31, 30, 31, 30, 31, 31, 30, 31, 30, 31]"

definition DAYS_BEFORE_MONTH :: "int list" where
  "DAYS_BEFORE_MONTH = [0, 31, 59, 90, 120, 151, 181, 212, 243, 273, 304, 334]"

definition days_in_month :: "int \<Rightarrow> int \<Rightarrow> int" where
  "days_in_month year month =
     (if month = 2 \<and> is_leap year then 29 else DAYS_IN_MONTH ! nat (month - 1))"

definition days_before_month :: "int \<Rightarrow> int \<Rightarrow> int" where
  "days_before_month year month =
     DAYS_BEFORE_MONTH ! nat (month - 1) + (if 2 < month \<and> is_leap year then 1 else 0)"

definition ymd2ord :: "int \<Rightarrow> int \<Rightarrow> int \<Rightarrow> int" where
  "ymd2ord year month day = days_before_year year + days_before_month year month + day"

definition ord2ymd :: "int \<Rightarrow> int \<times> int \<times> int" where
  "ord2ymd ordinal =
     (let n = ordinal - 1;
          n400 = n div 146097; n = n mod 146097;
          n100 = n div 36524; n = n mod 36524;
          n4 = n div 1461; n = n mod 1461;
          n1 = n div 365; n = n mod 365;
          year = n400 * 400 + 1 + n100 * 100 + n4 * 4 + n1
      in if n1 = 4 \<or> n100 = 4 then (year - 1, 12, 31)
         else
           let leapyear = (n1 = 3 \<and> (n4 \<noteq> 24 \<or> n100 = 3));
               month = (n + 50) div 32;
               preceding = DAYS_BEFORE_MONTH ! nat (month - 1)
                             + (if 2 < month \<and> leapyear then 1 else 0)
           in if n < preceding
              then let month = month - 1;
                       preceding = preceding
                         - (DAYS_IN_MONTH ! nat (month - 1)
                            + (if month = 2 \<and> leapyear then 1 else 0))
                   in (year, month, n - preceding + 1)
              else (year, month, n - preceding + 1))"

definition toordinal :: "datetime \<Rightarrow> int" where
  "toordinal d = ymd2ord (dt_year d) (dt_month d) (dt_day d)"

text \<open>\<^verbatim>\<open>d + timedelta(days=k)\<close>: the date moves by \<open>k\<close> days, the time of day stays.\<close>

definition add_days :: "datetime \<Rightarrow> int \<Rightarrow> datetime" where
  "add_days d k =
     (case ord2ymd (toordinal d + k) of
        (y, m, dd) \<Rightarrow> \<lparr>dt_year = y, dt_month = m, dt_day = dd, dt_micros = dt_micros d\<rparr>)"

text \<open>
  \<^verbatim>\<open>(a - b).days\<close>: the difference is normalised so that its seconds and microseconds are
  not negative, hence the floor of the difference in days.
\<close>

definition timedelta_days :: "datetime \<Rightarrow> datetime \<Rightarrow> int" where
  "timedelta_days a b =
     ((toordinal a - toordinal b) * 86400000000 + (dt_micros a - dt_micros b)) div 86400000000"

section \<open>Data\<close>

text \<open>The columns of \<^verbatim>\<open>User\<close> (\<^verbatim>\<open>database.py\<close>) that the engine reads.\<close>

record user =
  user_id :: int
  annual_income :: rat
  credit_score :: int
  date_of_birth :: "datetime option"
  employment_start_date :: "datetime option"
  existing_emis :: rat

text \<open>An entry of \<^verbatim>\<open>LOAN_CRITERIA\<close>; the table itself, with its five loan types.\<close>

record criteria =
  min_age :: int
  max_age_maturity :: int
  min_income :: int
  min_employment_years :: int
  min_credit_score :: int
  max_dti_ratio :: int
  min_interest_rate :: rat
  max_loan_to_income :: int

definition personal_loan :: criteria where
  "personal_loan =
     \<lparr>min_age = 21, max_age_maturity = 65, min_income = 300000, min_employment_years = 1,
      min_credit_score = 650, max_dti_ratio = 40, min_interest_rate = 21 / 2,
      max_loan_to_income = 5\<rparr>"

definition home_loan :: criteria where
  "home_loan =
     \<lparr>min_age = 21, max_age_maturity = 70, min_income = 600000, min_employment_years = 2,
      min_credit_score = 700, max_dti_ratio = 35, min_interest_rate = 17 / 2,
      max_loan_to_income = 6\<rparr>"

definition car_loan :: criteria where
  "car_loan =
     \<lparr>min_age = 21, max_age_maturity = 65, min_income = 400000, min_employment_years = 1,
      min_credit_score = 600, max_dti_ratio = 45, min_interest_rate = 15 / 2,
      max_loan_to_income = 5\<rparr>"

definition education_loan :: criteria where
  "education_loan =
     \<lparr>min_age = 18, max_age_maturity = 35, min_income = 0, min_employment_years = 0,
      min_credit_score = 550, max_dti_ratio = 0, min_interest_rate = 8,
      max_loan_to_income = 10\<rparr>"

definition business_loan :: criteria where
  "business_loan =
     \<lparr>min_age = 25, max_age_maturity = 65, min_income = 800000, min_employment_years = 3,
      min_credit_score = 720, max_dti_ratio = 30, min_interest_rate = 11,
      max_loan_to_income = 4\<rparr>"

definition LOAN_CRITERIA :: "(string \<times> criteria) list" where
  "LOAN_CRITERIA =
     [(''Personal Loan'', personal_loan), (''Home Loan'', home_loan),
      (''Car Loan'', car_loan), (''Education Loan'', education_loan),
      (''Business Loan'', business_loan)]"

text \<open>\<^verbatim>\<open>LOAN_CRITERIA.get(loan_type, LOAN_CRITERIA['Personal Loan'])\<close>\<close>

definition criteria_get :: "string \<Rightarrow> criteria" where
  "criteria_get loan_type =
     (case map_of LOAN_CRITERIA loan_type of Some c \<Rightarrow> c | None \<Rightarrow> personal_loan)"

text \<open>An entry of the list that \<^verbatim>\<open>generate_emi_schedule\<close> returns.\<close>

record emi_entry =
  emi_number :: int
  due_date :: datetime
  emi_amount :: rat
  principal_component :: rat
  interest_component :: rat
  remaining_principal :: rat

text \<open>
  A float that may be \<^verbatim>\<open>float('inf')\<close>, and the comparison \<^verbatim>\<open>x > c\<close> of such a float with
  an integer threshold.
\<close>

datatype ratio = Finite rat | Infinity

fun ratio_gt :: "ratio \<Rightarrow> int \<Rightarrow> bool" where
  "ratio_gt (Finite x) c = (of_int c < x)"
| "ratio_gt Infinity c = True"

text \<open>The dictionary of derived values that \<^verbatim>\<open>validate_loan_application\<close> returns.\<close>

record calculations =
  age :: int
  employment_years :: rat
  dti_ratio :: rat
  loan_to_income :: ratio
  age_at_maturity :: rat

text \<open>
  The reasons are f-strings.  Each is modelled by a constructor that holds the values the
  string interpolates, in the order of the \<^verbatim>\<open>if\<close> statements of
  \<^verbatim>\<open>validate_loan_application\<close>; the rendering of a number as text is not modelled.
\<close>

datatype issue =
    MinimumAgeRequired int
  | MaximumAgeAtMaturity int
  | MinimumAnnualIncome int
  | MinimumEmploymentYears int
  | MinimumCreditScore int
  | MaximumDebtToIncome int rat
  | MinimumInterestRate rat
  | MaximumLoanToIncome int

text \<open>The columns of \<^verbatim>\<open>Loan\<close> that \<^verbatim>\<open>apply_loan\<close> sets.\<close>

record loan =
  loan_user_id :: int
  loan_amount :: rat
  interest_rate :: rat
  loan_term :: int
  loan_type :: string
  status :: string
  rejection_reason :: "issue list option"

section \<open>LoanCalculator\<close>

text \<open>
  \<^verbatim>\<open>
  def calculate_emi(principal, annual_rate, tenure_months):
      monthly_rate = annual_rate / 12 / 100
      emi = (principal * monthly_rate * math.pow(1 + monthly_rate, tenure_months)) / (
          math.pow(1 + monthly_rate, tenure_months) - 1
      )
      return round(emi, 2)
  \<close>
  Both calls of \<^verbatim>\<open>math.pow\<close> have the same arguments, so they raise together or return the
  same value; the division raises when the divisor is zero.
\<close>

definition calculate_emi :: "rat \<Rightarrow> rat \<Rightarrow> int \<Rightarrow> py_error + rat" where
  "calculate_emi princ annual_rate tenure_months =
     (let monthly_rate = annual_rate / 12 / 100
      in case math_pow (1 + monthly_rate) tenure_months of
           Inl e \<Rightarrow> Inl e
         | Inr pw \<Rightarrow>
             (case truediv (princ * monthly_rate * pw) (pw - 1) of
                Inl e \<Rightarrow> Inl e
              | Inr emi \<Rightarrow> Inr (py_round emi 2)))"

text \<open>
  \<^verbatim>\<open>generate_emi_schedule\<close>.  The state of the loop is the current \<^verbatim>\<open>emi_amount\<close>, the
  \<^verbatim>\<open>remaining_principal\<close> and the \<^verbatim>\<open>schedule\<close> built so far; \<open>schedule_step\<close> is one pass
  of the body for the index \<open>i\<close>, and the loop runs it over \<^verbatim>\<open>range(1, loan_term + 1)\<close>.
  \<^verbatim>\<open>
      interest_component = remaining_principal * monthly_rate
      principal_component = emi_amount - interest_component
      if i == loan_term:
          principal_component = remaining_principal
          emi_amount = principal_component + interest_component
      due_date = start_date + timedelta(days=30 * i)
      schedule.append({'emi_number': i, 'due_date': due_date,
          'emi_amount': round(emi_amount, 2),
          'principal_component': round(principal_component, 2),
          'interest_component': round(interest_component, 2),
          'remaining_principal': round(remaining_principal - principal_component, 2)})
      remaining_principal -= principal_component
  \<close>
\<close>

type_synonym loop_state = "rat \<times> rat \<times> emi_entry list"

definition schedule_step :: "rat \<Rightarrow> int \<Rightarrow> datetime \<Rightarrow> int \<Rightarrow> loop_state \<Rightarrow> loop_state" where
  "schedule_step monthly_rate term start_date i st =
     (case st of (emi_amt, remaining, schedule) \<Rightarrow>
        let interest = remaining * monthly_rate;
            princ_part = emi_amt - interest;
            princ_part = (if i = term then remaining else princ_part);
            emi_amt = (if i = term then princ_part + interest else emi_amt)
        in (emi_amt,
            remaining - princ_part,
            schedule @
              [\<lparr>emi_number = i,
                due_date = add_days start_date (30 * i),
                emi_amount = py_round emi_amt 2,
                principal_component = py_round princ_part 2,
                interest_component = py_round interest 2,
                remaining_principal = py_round (remaining - princ_part) 2\<rparr>]))"

definition generate_emi_schedule ::
  "rat \<Rightarrow> rat \<Rightarrow> int \<Rightarrow> datetime \<Rightarrow> py_error + emi_entry list" where
  "generate_emi_schedule amount rate term start_date =
     (case calculate_emi amount rate term of
        Inl e \<Rightarrow> Inl e
      | Inr emi_amt \<Rightarrow>
          let monthly_rate = rate / 12 / 100
          in Inr (snd (snd (fold (schedule_step monthly_rate term start_date) [1..term]
                              (emi_amt, amount, [])))))"


section \<open>LoanValidator\<close>

text \<open>
  \<^verbatim>\<open>datetime.today()\<close> is the parameter \<open>today\<close> of the functions that read the clock; one
  evaluation reads it twice, and the model gives both reads the same instant.
  \<^verbatim>\<open>
  def calculate_age(birth_date):
      if not birth_date:
          return 0
      today = datetime.today()
      return today.year - birth_date.year
               - ((today.month, today.day) < (birth_date.month, birth_date.day))
  \<close>
\<close>

definition calculate_age :: "datetime \<Rightarrow> datetime option \<Rightarrow> int" where
  "calculate_age today birth_date =
     (case birth_date of
        None \<Rightarrow> 0
      | Some b \<Rightarrow>
          dt_year today - dt_year b
            - (if dt_month today < dt_month b
                  \<or> (dt_month today = dt_month b \<and> dt_day today < dt_day b)
               then 1 else 0))"

text \<open>
  \<^verbatim>\<open>
  def calculate_employment_years(employment_start_date):
      if not employment_start_date:
          return 0
      employment_duration = (datetime.today() - employment_start_date).days / 365.25
      return round(employment_duration, 1)
  \<close>
\<close>

definition calculate_employment_years :: "datetime \<Rightarrow> datetime option \<Rightarrow> rat" where
  "calculate_employment_years today employment_start =
     (case employment_start of
        None \<Rightarrow> 0
      | Some s \<Rightarrow>
          let employment_duration = of_int (timedelta_days today s) / (36525 / 100)
          in py_round employment_duration 1)"

text \<open>
  \<^verbatim>\<open>
  def calculate_dti_ratio(user, new_loan_emi):
      monthly_income = user.annual_income / 12
      total_monthly_debt = user.existing_emis + new_loan_emi
      if monthly_income == 0:
          return 100  # Maximum DTI if no income
      return (total_monthly_debt / monthly_income) * 100
  \<close>
\<close>

definition calculate_dti_ratio :: "user \<Rightarrow> rat \<Rightarrow> py_error + rat" where
  "calculate_dti_ratio u new_loan_emi =
     (let monthly_income = annual_income u / 12;
          total_monthly_debt = existing_emis u + new_loan_emi
      in if monthly_income = 0 then Inr 100
         else case truediv total_monthly_debt monthly_income of
                Inl e \<Rightarrow> Inl e
              | Inr q \<Rightarrow> Inr (q * 100))"

text \<open>
  \<^verbatim>\<open>loan_amount / user.annual_income if user.annual_income > 0 else float('inf')\<close>, the
  expression of \<^verbatim>\<open>validate_loan_application\<close> for the loan-to-income ratio.
\<close>

definition loan_to_income_ratio :: "user \<Rightarrow> rat \<Rightarrow> py_error + ratio" where
  "loan_to_income_ratio u amount =
     (if 0 < annual_income u
      then case truediv amount (annual_income u) of
             Inl e \<Rightarrow> Inl e
           | Inr q \<Rightarrow> Inr (Finite q)
      else Inr Infinity)"

text \<open>
  \<^verbatim>\<open>validate_loan_application\<close>: the derived values first, each of which may raise, then
  the eight \<^verbatim>\<open>if\<close> statements in their order, each appending to \<^verbatim>\<open>issues\<close>.
\<close>

definition validate_loan_application ::
  "datetime \<Rightarrow> user \<Rightarrow> rat \<Rightarrow> rat \<Rightarrow> int \<Rightarrow> string \<Rightarrow> py_error + issue list \<times> calculations" where
  "validate_loan_application today u amount rate term ltype =
     (let crit = criteria_get ltype;
          issues = [];
          age_v = calculate_age today (date_of_birth u);
          employment_v = calculate_employment_years today (employment_start_date u)
      in case calculate_emi amount rate term of
           Inl e \<Rightarrow> Inl e
         | Inr new_loan_emi \<Rightarrow>
        (case calculate_dti_ratio u new_loan_emi of
           Inl e \<Rightarrow> Inl e
         | Inr dti_v \<Rightarrow>
        (case loan_to_income_ratio u amount of
           Inl e \<Rightarrow> Inl e
         | Inr lti_v \<Rightarrow>
          let maturity_v = of_int age_v + of_int term / 12;
              issues = (if age_v < min_age crit
                        then issues @ [MinimumAgeRequired (min_age crit)] else issues);
              issues = (if of_int (max_age_maturity crit) < maturity_v
                        then issues @ [MaximumAgeAtMaturity (max_age_maturity crit)]
                        else issues);
              issues = (if annual_income u < of_int (min_income crit)
                        then issues @ [MinimumAnnualIncome (min_income crit)] else issues);
              issues = (if employment_v < of_int (min_employment_years crit)
                        then issues @ [MinimumEmploymentYears (min_employment_years crit)]
                        else issues);
              issues = (if credit_score u < min_credit_score crit
                        then issues @ [MinimumCreditScore (min_credit_score crit)]
                        else issues);
              issues = (if of_int (max_dti_ratio crit) < dti_v
                        then issues @ [MaximumDebtToIncome (max_dti_ratio crit) dti_v]
                        else issues);
              issues = (if rate < min_interest_rate crit
                        then issues @ [MinimumInterestRate (min_interest_rate crit)]
                        else issues);
              issues = (if ratio_gt lti_v (max_loan_to_income crit)
                        then issues @ [MaximumLoanToIncome (max_loan_to_income crit)]
                        else issues)
          in Inr (issues,
                  \<lparr>age = age_v, employment_years = employment_v, dti_ratio = dti_v,
                   loan_to_income = lti_v, age_at_maturity = maturity_v\<rparr>))))"

section \<open>The route \<^verbatim>\<open>apply_loan\<close>\<close>

text \<open>
  The POST branch of \<^verbatim>\<open>apply_loan\<close> (\<^verbatim>\<open>app.py\<close>), from the parsed form values to the \<^verbatim>\<open>Loan\<close>
  row it adds; the flash messages, the database session and the redirect are left out.
  \<^verbatim>\<open>
      issues, calculations = LoanValidator.validate_loan_application(
          current_user, loan_amount, interest_rate, loan_term, loan_type)
      if issues:
          status = 'Rejected'
          rejection_reason = ' | '.join(issues)
      else:
          status = 'Pending'
          rejection_reason = None
  \<close>
  The joined text is modelled by the list of reasons it joins.
\<close>

definition apply_loan :: "datetime \<Rightarrow> user \<Rightarrow> rat \<Rightarrow> rat \<Rightarrow> int \<Rightarrow> string \<Rightarrow> py_error + loan" where
  "apply_loan today current_user amount rate term ltype =
     (case validate_loan_application today current_user amount rate term ltype of
        Inl e \<Rightarrow> Inl e
      | Inr (issues, calcs) \<Rightarrow>
          let st = (if issues \<noteq> [] then ''Rejected'' else ''Pending'');
              reason = (if issues \<noteq> [] then Some issues else None)
          in Inr \<lparr>loan_user_id = user_id current_user, loan_amount = amount,
                  interest_rate = rate, loan_term = term, loan_type = ltype,
                  status = st, rejection_reason = reason\<rparr>)"

section \<open>The checks as the specification words them\<close>

text \<open>
  The specification describes the evaluation as independent checks accumulated into a list
  of reasons.  \<open>eligibility_checks\<close> lists the checks that way: for each one, whether it
  fails and the reason it would give, from the criteria entry, the profile, the rate and
  the derived values.
\<close>

definition eligibility_checks :: "criteria \<Rightarrow> user \<Rightarrow> rat \<Rightarrow> calculations \<Rightarrow> (bool \<times> issue) list" where
  "eligibility_checks crit u rate m =
     [(age m < min_age crit, MinimumAgeRequired (min_age crit)),
      (of_int (max_age_maturity crit) < age_at_maturity m,
         MaximumAgeAtMaturity (max_age_maturity crit)),
      (annual_income u < of_int (min_income crit), MinimumAnnualIncome (min_income crit)),
      (employment_years m < of_int (min_employment_years crit),
         MinimumEmploymentYears (min_employment_years crit)),
      (credit_score u < min_credit_score crit, MinimumCreditScore (min_credit_score crit)),
      (of_int (max_dti_ratio crit) < dti_ratio m,
         MaximumDebtToIncome (max_dti_ratio crit) (dti_ratio m)),
      (rate < min_interest_rate crit, MinimumInterestRate (min_interest_rate crit)),
      (ratio_gt (loan_to_income m) (max_loan_to_income crit),
         MaximumLoanToIncome (max_loan_to_income crit))]"

text \<open>
  The derived values as the specification's first step lists them, for an installment
  \<open>emi\<close> that has been computed: age, employment years, debt-to-income ratio with its
  sentinel 100, loan-to-income ratio with its infinite sentinel, and age at maturity.
\<close>

definition derived_metrics :: "datetime \<Rightarrow> user \<Rightarrow> rat \<Rightarrow> int \<Rightarrow> rat \<Rightarrow> calculations" where
  "derived_metrics today u amount term emi =
     \<lparr>age = calculate_age today (date_of_birth u),
      employment_years = calculate_employment_years today (employment_start_date u),
      dti_ratio = (if annual_income u = 0 then 100
                   else (existing_emis u + emi) / (annual_income u / 12) * 100),
      loan_to_income = (if 0 < annual_income u then Finite (amount / annual_income u)
                        else Infinity),
      age_at_maturity = of_int (calculate_age today (date_of_birth u)) + of_int term / 12\<rparr>"


section \<open>Sample data\<close>

text \<open>
  The inputs of the closed evaluations below: a day, a salaried applicant who fails four
  checks of a personal loan, a student without income, and an applicant who passes every
  check of a personal loan.
\<close>

abbreviation day_2025_06_15 :: datetime where
  "day_2025_06_15 \<equiv> \<lparr>dt_year = 2025, dt_month = 6, dt_day = 15, dt_micros = 0\<rparr>"

abbreviation applicant_1 :: user where
  "applicant_1 \<equiv>
     \<lparr>user_id = 1, annual_income = 250000, credit_score = 600,
      date_of_birth = Some \<lparr>dt_year = 1995, dt_month = 3, dt_day = 10, dt_micros = 0\<rparr>,
      employment_start_date = None, existing_emis = 0\<rparr>"

abbreviation student_2 :: user where
  "student_2 \<equiv>
     \<lparr>user_id = 2, annual_income = 0, credit_score = 700,
      date_of_birth = Some \<lparr>dt_year = 2003, dt_month = 8, dt_day = 20, dt_micros = 0\<rparr>,
      employment_start_date = None, existing_emis = 0\<rparr>"

abbreviation applicant_3 :: user where
  "applicant_3 \<equiv>
     \<lparr>user_id = 3, annual_income = 600000, credit_score = 750,
      date_of_birth = Some \<lparr>dt_year = 1990, dt_month = 1, dt_day = 1, dt_micros = 0\<rparr>,
      employment_start_date = Some \<lparr>dt_year = 2015, dt_month = 1, dt_day = 1, dt_micros = 0\<rparr>,
      existing_emis = 0\<rparr>"

section \<open>Quantities of a schedule\<close>

text \<open>
  The sums of the principal and of the interest components over the entries of a schedule,
  as the specification compares them with the principal and with the total interest.
\<close>

definition sum_principal :: "emi_entry list \<Rightarrow> rat" where
  "sum_principal schedule = sum_list (map principal_component schedule)"

definition sum_interest :: "emi_entry list \<Rightarrow> rat" where
  "sum_interest schedule = sum_list (map interest_component schedule)"

text \<open>
  The value of \<^verbatim>\<open>remaining_principal\<close> after \<open>k\<close> passes of the loop that are not the last
  one: each pass takes \<^verbatim>\<open>emi_amount - remaining_principal * monthly_rate\<close> off it.
\<close>

fun balance :: "rat \<Rightarrow> rat \<Rightarrow> rat \<Rightarrow> nat \<Rightarrow> rat" where
  "balance r emi p 0 = p"
| "balance r emi p (Suc k) = balance r emi p k * (1 + r) - emi"

section \<open>Evaluating the functions on concrete inputs\<close>

text \<open>
  The floor of a quotient of numerals, so that the simplifier computes \<open>py_round\<close>; and
  the definitions that it unfolds to run the functions on a concrete input.
\<close>

lemma floor_rat_numeral:
  "\<lfloor>(numeral a :: rat) / numeral b\<rfloor> = numeral a div numeral b"
  using floor_divide_of_int_eq [of "numeral a" "numeral b", where ?'a = rat] by simp

lemma floor_rat_neg_numeral:
  "\<lfloor>- ((numeral a :: rat) / numeral b)\<rfloor> = - numeral a div numeral b"
  using floor_divide_of_int_eq [of "- numeral a" "numeral b", where ?'a = rat] by simp

lemmas eval_round = py_round_def round_half_even_def Let_def power_divide
  floor_rat_numeral floor_rat_neg_numeral

lemmas eval_emi = calculate_emi_def math_pow_def truediv_def DBL_OVERFLOW_def

lemmas eval_date = toordinal_def ymd2ord_def ord2ymd_def days_before_year_def
  days_before_month_def DAYS_BEFORE_MONTH_def DAYS_IN_MONTH_def is_leap_def add_days_def
  timedelta_days_def

lemmas eval_criteria = criteria_get_def LOAN_CRITERIA_def personal_loan_def home_loan_def
  car_loan_def education_loan_def business_loan_def

lemmas eval_validate = derived_metrics_def eligibility_checks_def calculate_age_def
  calculate_employment_years_def eval_date eval_criteria

section \<open>The installment at a zero rate\<close>

lemma calculate_emi_zero_rate:
  "calculate_emi princ 0 tenure_months = Inl ZeroDivisionError"
  by (simp add: calculate_emi_def math_pow_def truediv_def DBL_OVERFLOW_def)

text \<open>
  Claim C1.  The claim: with an annual rate of 0 the installment computation returns
  \<open>principal / termMonths\<close> rounded to two decimals and never reaches a division by zero.
  The code has no branch for a zero rate: the monthly rate is 0, the power is 1, the divisor
  \<open>1 - 1\<close> is zero and the call raises \<^verbatim>\<open>ZeroDivisionError\<close>, here for a principal of
  100000 over 12 months.
\<close>

theorem calculate_emi_zero_rate_raises:
  "calculate_emi 100000 0 12 = Inl ZeroDivisionError"
  by (simp add: calculate_emi_def math_pow_def truediv_def DBL_OVERFLOW_def)

section \<open>The schedule at a zero rate\<close>

lemma generate_emi_schedule_raises:
  assumes "calculate_emi amount rate term = Inl e"
  shows "generate_emi_schedule amount rate term start_date = Inl e"
  by (simp add: generate_emi_schedule_def assms)

text \<open>
  Claim C5.  The claim: for a term of at least one month and a rate that may be 0, the
  schedule has one entry per month, numbered from 1, and its last entry has a remaining
  principal of 0.  \<^verbatim>\<open>generate_emi_schedule\<close> first calls \<^verbatim>\<open>calculate_emi\<close>, which raises at a
  zero rate, so no schedule is built: here for a principal of 100000 over 12 months from
  2025-06-15.
\<close>

theorem generate_emi_schedule_zero_rate_raises:
  "generate_emi_schedule 100000 0 12 day_2025_06_15 = Inl ZeroDivisionError"
  by (simp add: generate_emi_schedule_raises [OF calculate_emi_zero_rate])

section \<open>The loop of the schedule\<close>

text \<open>
  Rounding to two decimals moves a value by at most half a cent.  The loop keeps the
  remaining principal unrounded and rounds only what it stores in an entry, so after
  \<open>k\<close> passes the stored components differ from the exact ones by at most \<open>k\<close> half
  cents in total; the last pass takes the whole remaining principal.
\<close>

lemma round_half_even_error:
  "\<bar>of_int (round_half_even y) - y\<bar> \<le> 1 / 2"
proof -
  have "of_int \<lfloor>y\<rfloor> \<le> y" and "y < of_int \<lfloor>y\<rfloor> + 1"
    by linarith+
  then show ?thesis
    unfolding round_half_even_def Let_def by (simp add: abs_le_iff) 
qed

lemma py_round_error:
  "\<bar>py_round x 2 - x\<bar> \<le> 1 / 200"
proof -
  define R where "R = (of_int (round_half_even (x * 100)) :: rat)"
  have h: "\<bar>R - x * 100\<bar> \<le> 1 / 2"
    unfolding R_def by (rule round_half_even_error)
  have p: "py_round x 2 = R / 100"
    by (simp add: py_round_def R_def)
  from h show ?thesis unfolding p by linarith
qed

lemma py_round_zero: "py_round 0 2 = 0"
  by (simp add: py_round_def round_half_even_def)

lemma abs_accumulate:
  fixes a b x y k :: rat
  assumes "\<bar>a - b\<bar> \<le> k / 200" and "\<bar>x - y\<bar> \<le> 1 / 200"
  shows "\<bar>(a + x) - (b + y)\<bar> \<le> (1 + k) / 200"
proof -
  have "\<bar>(a + x) - (b + y)\<bar> = \<bar>(a - b) + (x - y)\<bar>"
    by (simp add: algebra_simps)
  also have "\<dots> \<le> \<bar>a - b\<bar> + \<bar>x - y\<bar>"
    by (rule abs_triangle_ineq)
  also have "\<dots> \<le> k / 200 + 1 / 200"
    using assms by (rule add_mono)
  finally show ?thesis by (simp add: add_divide_distrib)
qed


lemma upto_Suc_snoc:
  "[1..int (Suc k)] = [1..int k] @ [int k + 1]"
  using upto_rec2 [of 1 "int (Suc k)"] by simp

lemma sum_principal_snoc:
  "sum_principal (sch @ [e]) = sum_principal sch + principal_component e"
  by (simp add: sum_principal_def)

lemma sum_interest_snoc:
  "sum_interest (sch @ [e]) = sum_interest sch + interest_component e"
  by (simp add: sum_interest_def)

lemma schedule_loop_regular:
  assumes "int k < term"
  shows "\<exists>sch. fold (schedule_step r term d) [1..int k] (emi, p, [])
                 = (emi, balance r emi p k, sch)
        \<and> map emi_number sch = [1..int k]
        \<and> \<bar>sum_principal sch - (p - balance r emi p k)\<bar> \<le> of_nat k / 200
        \<and> \<bar>sum_interest sch - (of_nat k * emi - (p - balance r emi p k))\<bar> \<le> of_nat k / 200"
  using assms
proof (induction k)
  case 0
  show ?case by (simp add: sum_principal_def sum_interest_def)
next
  case (Suc k)
  then have "int k < term" and ne: "int k + 1 \<noteq> term" by simp_all
  with Suc.IH obtain sch where
    f: "fold (schedule_step r term d) [1..int k] (emi, p, []) = (emi, balance r emi p k, sch)"
    and n: "map emi_number sch = [1..int k]"
    and sp: "\<bar>sum_principal sch - (p - balance r emi p k)\<bar> \<le> of_nat k / 200"
    and si: "\<bar>sum_interest sch - (of_nat k * emi - (p - balance r emi p k))\<bar> \<le> of_nat k / 200"
    by blast
  let ?b = "balance r emi p k"
  let ?e = "\<lparr>emi_number = int k + 1, due_date = add_days d (30 * (int k + 1)),
             emi_amount = py_round emi 2,
             principal_component = py_round (emi - ?b * r) 2,
             interest_component = py_round (?b * r) 2,
             remaining_principal = py_round (?b - (emi - ?b * r)) 2\<rparr>"
  have b: "balance r emi p (Suc k) = ?b - (emi - ?b * r)"
    by (simp add: algebra_simps)
  have step: "fold (schedule_step r term d) [1..int (Suc k)] (emi, p, [])
                = (emi, balance r emi p (Suc k), sch @ [?e])"
    unfolding upto_Suc_snoc b by (simp add: f schedule_step_def Let_def ne)
  have n': "map emi_number (sch @ [?e]) = [1..int (Suc k)]"
    unfolding upto_Suc_snoc by (simp add: n)
  have sp': "\<bar>sum_principal (sch @ [?e]) - (p - balance r emi p (Suc k))\<bar>
               \<le> of_nat (Suc k) / 200"
  proof -
    have "sum_principal (sch @ [?e]) - (p - balance r emi p (Suc k))
            = (sum_principal sch + py_round (emi - ?b * r) 2) - ((p - ?b) + (emi - ?b * r))"
      unfolding b by (simp add: sum_principal_snoc)
    with abs_accumulate [OF sp py_round_error [of "emi - ?b * r"]] show ?thesis
      by (simp only: of_nat_Suc)
  qed
  have si': "\<bar>sum_interest (sch @ [?e]) - (of_nat (Suc k) * emi - (p - balance r emi p (Suc k)))\<bar>
               \<le> of_nat (Suc k) / 200"
  proof -
    have "sum_interest (sch @ [?e]) - (of_nat (Suc k) * emi - (p - balance r emi p (Suc k)))
            = (sum_interest sch + py_round (?b * r) 2)
                - ((of_nat k * emi - (p - ?b)) + ?b * r)"
      unfolding b by (simp add: sum_interest_snoc algebra_simps)
    with abs_accumulate [OF si py_round_error [of "?b * r"]] show ?thesis
      by (simp only: of_nat_Suc)
  qed
  from step n' sp' si' show ?case by blast
qed

lemma schedule_loop_last:
  "\<exists>sch. fold (schedule_step r (int (Suc k)) d) [1..int (Suc k)] (emi, p, [])
                 = (balance r emi p k + balance r emi p k * r, 0, sch)
        \<and> map emi_number sch = [1..int (Suc k)]
        \<and> remaining_principal (last sch) = 0
        \<and> \<bar>sum_principal sch - p\<bar> \<le> of_nat (Suc k) / 200
        \<and> \<bar>sum_interest sch - (of_nat (Suc k) * emi - p + balance r emi p (Suc k))\<bar>
             \<le> of_nat (Suc k) / 200"
proof -
  let ?last = "int (Suc k)"
  have "int k < ?last" by simp
  from schedule_loop_regular [OF this, of r d emi p] obtain sch where
    f: "fold (schedule_step r ?last d) [1..int k] (emi, p, []) = (emi, balance r emi p k, sch)"
    and n: "map emi_number sch = [1..int k]"
    and sp: "\<bar>sum_principal sch - (p - balance r emi p k)\<bar> \<le> of_nat k / 200"
    and si: "\<bar>sum_interest sch - (of_nat k * emi - (p - balance r emi p k))\<bar> \<le> of_nat k / 200"
    by blast
  let ?b = "balance r emi p k"
  let ?e = "\<lparr>emi_number = ?last, due_date = add_days d (30 * ?last),
             emi_amount = py_round (?b + ?b * r) 2,
             principal_component = py_round ?b 2,
             interest_component = py_round (?b * r) 2,
             remaining_principal = py_round 0 2\<rparr>"
  have u: "[1..?last] = [1..int k] @ [?last]"
    using upto_Suc_snoc [of k] by simp
  have step: "fold (schedule_step r ?last d) [1..?last] (emi, p, [])
                = (?b + ?b * r, 0, sch @ [?e])"
    unfolding u fold_append comp_def f
    by (simp add: schedule_step_def Let_def)
  have n': "map emi_number (sch @ [?e]) = [1..?last]"
    unfolding u by (simp add: n)
  have l: "remaining_principal (last (sch @ [?e])) = 0"
    by (simp add: py_round_zero)
  have sp': "\<bar>sum_principal (sch @ [?e]) - p\<bar> \<le> of_nat (Suc k) / 200"
  proof -
    have "sum_principal (sch @ [?e]) - p
            = (sum_principal sch + py_round ?b 2) - ((p - ?b) + ?b)"
      by (simp add: sum_principal_snoc)
    with abs_accumulate [OF sp py_round_error [of ?b]] show ?thesis
      by (simp only: of_nat_Suc)
  qed
  have si': "\<bar>sum_interest (sch @ [?e]) - (of_nat (Suc k) * emi - p + balance r emi p (Suc k))\<bar>
               \<le> of_nat (Suc k) / 200"
  proof -
    have "sum_interest (sch @ [?e]) - (of_nat (Suc k) * emi - p + balance r emi p (Suc k))
            = (sum_interest sch + py_round (?b * r) 2)
                - ((of_nat k * emi - (p - ?b)) + ?b * r)"
      by (simp add: sum_interest_snoc algebra_simps)
    with abs_accumulate [OF si py_round_error [of "?b * r"]] show ?thesis
      by (simp only: of_nat_Suc)
  qed
  from step n' l sp' si' show ?thesis by blast
qed

lemma schedule_loop_final:
  assumes "term = int (Suc k)"
  shows "\<exists>sch. fold (schedule_step r term d) [1..term] (emi, p, [])
                 = (balance r emi p k + balance r emi p k * r, 0, sch)
        \<and> map emi_number sch = [1..term]
        \<and> remaining_principal (last sch) = 0
        \<and> \<bar>sum_principal sch - p\<bar> \<le> of_int term / 200
        \<and> \<bar>sum_interest sch - (of_int term * emi - p + balance r emi p (Suc k))\<bar>
             \<le> of_int term / 200"
  using schedule_loop_last [of r k d emi p]
  unfolding assms of_int_of_nat_eq .




text \<open>
  When the installment is computed and the term is at least one month, the schedule has
  one entry for each month, numbered from 1, and the last remaining principal is 0.
\<close>

lemma schedule_shape:
  assumes "calculate_emi amount rate term = Inr emi" and "1 \<le> term"
  shows "\<exists>schedule. generate_emi_schedule amount rate term start_date = Inr schedule
           \<and> map emi_number schedule = [1..term]
           \<and> length schedule = nat term
           \<and> remaining_principal (last schedule) = 0"
proof -
  from assms(2) have k: "term = int (Suc (nat (term - 1)))" by simp
  from schedule_loop_final [OF k, of "rate / 12 / 100" start_date emi amount]
  obtain sch where
    f: "fold (schedule_step (rate / 12 / 100) term start_date) [1..term] (emi, amount, [])
          = (balance (rate / 12 / 100) emi amount (nat (term - 1))
               + balance (rate / 12 / 100) emi amount (nat (term - 1)) * (rate / 12 / 100), 0, sch)"
    and n: "map emi_number sch = [1..term]"
    and l: "remaining_principal (last sch) = 0"
    by blast
  from n have "length sch = length [1..term]" by (metis length_map)
  then have "length sch = nat term" using assms(2) by simp
  with f n l show ?thesis
    by (simp add: generate_emi_schedule_def assms(1) Let_def)
qed

section \<open>The components of a schedule and the amounts they add up to\<close>













section \<open>The evaluation and its checks\<close>

text \<open>
  The two guarded divisions never raise, so the evaluation raises exactly when the
  installment computation does, and otherwise returns the derived values together with the
  reasons of the failing checks, one for each, in the order of the checks.
\<close>

lemma calculate_dti_ratio_value:
  "calculate_dti_ratio u e =
     Inr (if annual_income u = 0 then 100
          else (existing_emis u + e) / (annual_income u / 12) * 100)"
  by (simp add: calculate_dti_ratio_def truediv_def Let_def)

lemma loan_to_income_ratio_value:
  "loan_to_income_ratio u a =
     Inr (if 0 < annual_income u then Finite (a / annual_income u) else Infinity)"
  by (simp add: loan_to_income_ratio_def truediv_def)

lemma validate_returns:
  assumes "calculate_emi amount rate term = Inr emi"
  shows "validate_loan_application today u amount rate term ltype =
           Inr (map snd (filter fst (eligibility_checks (criteria_get ltype) u rate
                  (derived_metrics today u amount term emi))),
                derived_metrics today u amount term emi)"
  unfolding validate_loan_application_def Let_def
  by (simp add: assms calculate_dti_ratio_value loan_to_income_ratio_value
        eligibility_checks_def derived_metrics_def)

lemma validate_raises:
  assumes "calculate_emi amount rate term = Inl e"
  shows "validate_loan_application today u amount rate term ltype = Inl e"
  unfolding validate_loan_application_def Let_def
  by (simp add: assms)

lemma length_eligibility_checks:
  "length (eligibility_checks crit u rate m) = 8"
  by (simp add: eligibility_checks_def)

lemma issues_dti:
  assumes "issues = map snd (filter fst (eligibility_checks crit u rate m))"
  shows "(MaximumDebtToIncome k d \<in> set issues)
           = (of_int (max_dti_ratio crit) < dti_ratio m \<and> k = max_dti_ratio crit \<and> d = dti_ratio m)"
  unfolding assms eligibility_checks_def by (simp del: set_map set_filter)

lemma issues_rate:
  assumes "issues = map snd (filter fst (eligibility_checks crit u rate m))"
  shows "(MinimumInterestRate k \<in> set issues)
           = (rate < min_interest_rate crit \<and> k = min_interest_rate crit)"
  unfolding assms eligibility_checks_def by (simp del: set_map set_filter)

lemma issues_lti:
  assumes "issues = map snd (filter fst (eligibility_checks crit u rate m))"
  shows "(MaximumLoanToIncome k \<in> set issues)
           = (ratio_gt (loan_to_income m) (max_loan_to_income crit) \<and> k = max_loan_to_income crit)"
  unfolding assms eligibility_checks_def by (simp del: set_map set_filter)

lemma apply_loan_returns:
  assumes "validate_loan_application today u amount rate term ltype = Inr (issues, m)"
  shows "apply_loan today u amount rate term ltype =
           Inr \<lparr>loan_user_id = user_id u, loan_amount = amount, interest_rate = rate,
                loan_term = term, loan_type = ltype,
                status = (if issues \<noteq> [] then ''Rejected'' else ''Pending''),
                rejection_reason = (if issues \<noteq> [] then Some issues else None)\<rparr>"
  unfolding apply_loan_def assms by (simp add: Let_def)

text \<open>
  An application on which four checks fail at once (income, employment years, credit score
  and debt-to-income ratio): all four reasons are returned.
\<close>

lemma calculate_emi_example:
  "calculate_emi 1000000 (21 / 2) 60 = Inr (2149390 / 100)"
  by (simp add: eval_emi eval_round)

lemma validate_four_reasons:
  "validate_loan_application day_2025_06_15 applicant_1 1000000 (21 / 2) 60 ''Personal Loan''
    = Inr ([MinimumAnnualIncome 300000, MinimumEmploymentYears 1, MinimumCreditScore 650,
            MaximumDebtToIncome 40 (644817 / 6250)],
           \<lparr>age = 30, employment_years = 0, dti_ratio = 644817 / 6250,
            loan_to_income = Finite 4, age_at_maturity = 35\<rparr>)"
  unfolding validate_returns [OF calculate_emi_example]
  by (simp add: eval_validate eval_round)

text \<open>
  Claim C6.  The claim: for every profile and request the evaluation runs all of its checks,
  appends one reason for each failing check and returns as many reasons as checks failed.
  On a request at a zero rate the evaluation returns nothing: it computes the installment
  before its first check, \<^verbatim>\<open>calculate_emi\<close> raises \<^verbatim>\<open>ZeroDivisionError\<close> and no check
  runs, although the rate 0 is below the floor of the loan type, so that the interest-rate
  check fails on this request, and the applicant fails the income check as well.
\<close>

theorem validate_zero_rate_raises:
  "validate_loan_application day_2025_06_15 applicant_1 1000000 0 60 ''Personal Loan''
     = Inl ZeroDivisionError
   \<and> (0 :: rat) < min_interest_rate (criteria_get ''Personal Loan'')
   \<and> annual_income applicant_1 < of_int (min_income (criteria_get ''Personal Loan''))"
  by (simp add: validate_raises [OF calculate_emi_zero_rate] eval_criteria)

section \<open>The decision\<close>

text \<open>
  Claim C7.  An application whose installment is computed is evaluated: the evaluation
  returns the reasons of the failing checks, and \<^verbatim>\<open>apply_loan\<close> stores the application as
  \<^verbatim>\<open>Rejected\<close> exactly when that list is not empty and as \<^verbatim>\<open>Pending\<close> exactly when it is
  empty; it never stores \<^verbatim>\<open>Approved\<close>.  The rejection reason is the list of reasons, and
  there is none on a pending application.
\<close>

theorem apply_loan_status:
  assumes "calculate_emi amount rate term = Inr emi"
  shows "\<exists>issues l.
           validate_loan_application today u amount rate term ltype
             = Inr (issues, derived_metrics today u amount term emi)
         \<and> issues = map snd (filter fst (eligibility_checks (criteria_get ltype) u rate
                      (derived_metrics today u amount term emi)))
         \<and> apply_loan today u amount rate term ltype = Inr l
         \<and> (status l = ''Rejected'') = (issues \<noteq> [])
         \<and> (status l = ''Pending'') = (issues = [])
         \<and> status l \<noteq> ''Approved''
         \<and> rejection_reason l = (if issues \<noteq> [] then Some issues else None)"
proof -
  note v = validate_returns [OF assms, of today u ltype]
  show ?thesis
    unfolding v apply_loan_returns [OF v] by simp
qed

text \<open>
  The applicant with four failing checks is stored as rejected with the four reasons.
\<close>

theorem apply_loan_status_witness:
  "\<exists>l. apply_loan day_2025_06_15 applicant_1 1000000 (21 / 2) 60 ''Personal Loan'' = Inr l
      \<and> status l = ''Rejected''
      \<and> rejection_reason l
          = Some [MinimumAnnualIncome 300000, MinimumEmploymentYears 1, MinimumCreditScore 650,
                  MaximumDebtToIncome 40 (644817 / 6250)]"
  using apply_loan_status [OF calculate_emi_example,
          of day_2025_06_15 applicant_1 "''Personal Loan''"]
  unfolding validate_four_reasons by auto

section \<open>A debt-to-income threshold of zero\<close>

lemma zero_max_dti_is_education:
  "(max_dti_ratio (criteria_get ltype) = 0) = (ltype = ''Education Loan'')"
  by (simp add: eval_criteria)

text \<open>
  Claim C8.  For a loan type whose entry has \<^verbatim>\<open>max_dti_ratio\<close> 0 (the education loan) and a
  request whose installment is computed, the evaluation returns the debt-to-income reason
  exactly when the computed ratio is strictly positive; as the ratio of an applicant with
  non-negative income and debts is never negative, the check then passes only for a ratio
  of exactly 0.
\<close>

theorem zero_max_dti_check:
  assumes "max_dti_ratio (criteria_get ltype) = 0"
    and "calculate_emi amount rate term = Inr emi"
  shows "\<exists>issues m.
           validate_loan_application today u amount rate term ltype = Inr (issues, m)
         \<and> m = derived_metrics today u amount term emi
         \<and> (MaximumDebtToIncome 0 (dti_ratio m) \<in> set issues) = (0 < dti_ratio m)
         \<and> (0 \<le> annual_income u \<and> 0 \<le> existing_emis u + emi \<longrightarrow>
              (MaximumDebtToIncome 0 (dti_ratio m) \<in> set issues) = (dti_ratio m \<noteq> 0))"
proof -
  let ?m = "derived_metrics today u amount term emi"
  let ?issues = "map snd (filter fst (eligibility_checks (criteria_get ltype) u rate ?m))"
  have v: "validate_loan_application today u amount rate term ltype = Inr (?issues, ?m)"
    by (rule validate_returns [OF assms(2)])
  have d: "(MaximumDebtToIncome 0 (dti_ratio ?m) \<in> set ?issues) = (0 < dti_ratio ?m)"
    using issues_dti [of ?issues "criteria_get ltype" u rate ?m 0 "dti_ratio ?m"] assms(1)
    by simp
  have n: "0 \<le> annual_income u \<and> 0 \<le> existing_emis u + emi \<longrightarrow> 0 \<le> dti_ratio ?m"
    by (simp add: derived_metrics_def)
  from v d n show ?thesis by auto
qed

text \<open>
  A student without income asks for an education loan of 20000: the ratio is the sentinel
  100, and the reason is returned.
\<close>

lemma calculate_emi_education_example:
  "calculate_emi 20000 12 12 = Inr (177698 / 100)"
  by (simp add: eval_emi eval_round)

theorem zero_max_dti_check_witness:
  "\<exists>issues m.
     validate_loan_application day_2025_06_15 student_2 20000 12 12 ''Education Loan''
       = Inr (issues, m)
   \<and> dti_ratio m = 100
   \<and> MaximumDebtToIncome 0 100 \<in> set issues"
proof -
  have c: "max_dti_ratio (criteria_get ''Education Loan'') = 0"
    by (simp add: eval_criteria)
  have d: "dti_ratio (derived_metrics day_2025_06_15 student_2 20000 12 (177698 / 100)) = 100"
    by (simp add: derived_metrics_def)
  from zero_max_dti_check [OF c calculate_emi_education_example,
         of day_2025_06_15 student_2] d
  show ?thesis by auto
qed

section \<open>An applicant without income\<close>

text \<open>
  Claim C9.  For a profile whose annual income is 0 the debt-to-income computation returns
  the sentinel 100, whatever the debts and the installment: the division by the monthly
  income is not reached and the call does not raise.
\<close>

theorem dti_zero_income_sentinel:
  assumes "annual_income u = 0"
  shows "calculate_dti_ratio u new_loan_emi = Inr 100"
  by (simp add: calculate_dti_ratio_value assms)

theorem dti_zero_income_sentinel_witness:
  "annual_income student_2 = 0 \<and> calculate_dti_ratio student_2 (177698 / 100) = Inr 100"
  using dti_zero_income_sentinel [of student_2 "177698 / 100"] by simp

text \<open>
  When the installment is computed, an applicant without income has the infinite
  loan-to-income ratio and gets the loan-to-income reason under every loan type.
\<close>

lemma zero_income_loan_to_income_fails:
  assumes "annual_income u = 0" and "calculate_emi amount rate term = Inr emi"
  shows "loan_to_income_ratio u amount = Inr Infinity
       \<and> (\<exists>issues m. validate_loan_application today u amount rate term ltype = Inr (issues, m)
             \<and> loan_to_income m = Infinity
             \<and> MaximumLoanToIncome (max_loan_to_income (criteria_get ltype)) \<in> set issues)"
proof -
  let ?m = "derived_metrics today u amount term emi"
  let ?crit = "criteria_get ltype"
  let ?issues = "map snd (filter fst (eligibility_checks ?crit u rate ?m))"
  have v: "validate_loan_application today u amount rate term ltype = Inr (?issues, ?m)"
    by (rule validate_returns [OF assms(2)])
  have i: "loan_to_income ?m = Infinity"
    by (simp add: derived_metrics_def assms(1))
  have "MaximumLoanToIncome (max_loan_to_income ?crit) \<in> set ?issues"
    using issues_lti [of ?issues ?crit u rate ?m "max_loan_to_income ?crit"] i by simp
  with v i show ?thesis
    by (simp add: loan_to_income_ratio_value assms(1))
qed

text \<open>
  Claim C10.  The claim: for every profile without income and every request with a positive
  principal, the loan-to-income ratio is the infinite sentinel and the evaluation appends
  the loan-to-income reason.  The ratio is the sentinel; but on a request at a zero rate
  the evaluation raises \<^verbatim>\<open>ZeroDivisionError\<close> in \<^verbatim>\<open>calculate_emi\<close> before it computes the
  ratio, so no reason is appended: here for the student and an education loan of 20000
  over 12 months.
\<close>

theorem zero_income_zero_rate_raises:
  "annual_income student_2 = 0
   \<and> loan_to_income_ratio student_2 20000 = Inr Infinity
   \<and> validate_loan_application day_2025_06_15 student_2 20000 0 12 ''Education Loan''
       = Inl ZeroDivisionError"
  by (simp add: validate_raises [OF calculate_emi_zero_rate] loan_to_income_ratio_value)

section \<open>Arguments that are not validated\<close>

text \<open>
  Whether the installment computation returns depends on the rate and on the term only:
  the principal is a factor of the dividend and of nothing else.  A term of 0 always makes
  the divisor zero.
\<close>

lemma calculate_emi_returns_iff:
  "(\<exists>emi. calculate_emi amount rate term = Inr emi)
     = (\<not> (1 + rate / 12 / 100 = 0 \<and> term < 0)
        \<and> \<not> DBL_OVERFLOW \<le> \<bar>(1 + rate / 12 / 100) powi term\<bar>
        \<and> (1 + rate / 12 / 100) powi term \<noteq> 1)"
  by (simp add: calculate_emi_def math_pow_def truediv_def Let_def)

lemma calculate_emi_any_principal:
  assumes "calculate_emi amount rate term = Inr emi"
  shows "\<exists>emi'. calculate_emi amount' rate term = Inr emi'"
proof -
  from assms have "\<exists>emi. calculate_emi amount rate term = Inr emi" by blast
  then show ?thesis unfolding calculate_emi_returns_iff .
qed

lemma calculate_emi_zero_term:
  "calculate_emi princ annual_rate 0 = Inl ZeroDivisionError"
  by (simp add: calculate_emi_def math_pow_def truediv_def DBL_OVERFLOW_def)

lemma min_interest_rate_positive:
  "0 < min_interest_rate (criteria_get ltype)"
  by (simp add: eval_criteria)

lemma calculate_emi_negative_principal:
  "calculate_emi (- 1000) 12 1 = Inr (- 1010)"
  by (simp add: eval_emi eval_round)

lemma calculate_emi_negative_rate:
  "calculate_emi 1000 (- 12) 1 = Inr 990"
  by (simp add: eval_emi eval_round)

lemma calculate_emi_negative_term:
  "calculate_emi 1000 12 (- 1) = Inr (- 1000)"
  by (simp add: eval_emi eval_round)

lemma validate_negative_principal:
  "validate_loan_application day_2025_06_15 applicant_3 (- 1000) 12 1 ''Personal Loan''
     = Inr ([], \<lparr>age = 35, employment_years = 105 / 10, dti_ratio = - (101 / 50),
                 loan_to_income = Finite (- (1 / 600)), age_at_maturity = 35 + 1 / 12\<rparr>)"
  unfolding validate_returns [OF calculate_emi_negative_principal]
  by (simp add: eval_validate eval_round)

lemma validate_negative_rate:
  "validate_loan_application day_2025_06_15 applicant_3 1000 (- 12) 1 ''Personal Loan''
     = Inr ([MinimumInterestRate (21 / 2)],
            \<lparr>age = 35, employment_years = 105 / 10, dti_ratio = 99 / 50,
             loan_to_income = Finite (1 / 600), age_at_maturity = 35 + 1 / 12\<rparr>)"
  unfolding validate_returns [OF calculate_emi_negative_rate]
  by (simp add: eval_validate eval_round)

text \<open>
  Claim C2.  The claim: a principal that is not positive, a term that is not positive or a
  negative rate make the installment computation fail with an invalid-argument error, and
  the evaluation never turns such a request into a business rejection.  The code checks
  none of its arguments and has no such error.  What holds: when the installment of a
  request is computed, it is computed for every other principal as well, whatever its
  sign; the request is evaluated like any other one and stored as \<^verbatim>\<open>Rejected\<close> or
  \<^verbatim>\<open>Pending\<close>; the interest-rate reason is among its reasons exactly when the rate is
  below the floor of the loan type, so that a rate that is not positive is a business
  rejection.
\<close>

theorem no_argument_validation:
  assumes "calculate_emi amount rate term = Inr emi"
  shows "(\<forall>amount'. \<exists>emi'. calculate_emi amount' rate term = Inr emi')
       \<and> (\<exists>issues l.
             validate_loan_application today u amount rate term ltype
               = Inr (issues, derived_metrics today u amount term emi)
           \<and> apply_loan today u amount rate term ltype = Inr l
           \<and> (status l = ''Rejected'' \<or> status l = ''Pending'')
           \<and> (MinimumInterestRate (min_interest_rate (criteria_get ltype)) \<in> set issues)
               = (rate < min_interest_rate (criteria_get ltype))
           \<and> (rate \<le> 0 \<longrightarrow> status l = ''Rejected''))"
proof -
  let ?m = "derived_metrics today u amount term emi"
  let ?crit = "criteria_get ltype"
  let ?issues = "map snd (filter fst (eligibility_checks ?crit u rate ?m))"
  have a: "\<forall>amount'. \<exists>emi'. calculate_emi amount' rate term = Inr emi'"
    using calculate_emi_any_principal [OF assms] by blast
  have v: "validate_loan_application today u amount rate term ltype = Inr (?issues, ?m)"
    by (rule validate_returns [OF assms])
  note l = apply_loan_returns [OF v]
  have i: "(MinimumInterestRate (min_interest_rate ?crit) \<in> set ?issues)
             = (rate < min_interest_rate ?crit)"
    using issues_rate [of ?issues ?crit u rate ?m "min_interest_rate ?crit"] by simp
  have n: "rate \<le> 0 \<longrightarrow> ?issues \<noteq> []"
  proof
    assume "rate \<le> 0"
    with min_interest_rate_positive [of ltype] have "rate < min_interest_rate ?crit" by simp
    with i have "MinimumInterestRate (min_interest_rate ?crit) \<in> set ?issues" by simp
    then show "?issues \<noteq> []" by (metis empty_iff set_empty)
  qed
  show ?thesis
  proof (intro conjI exI)
    show "\<forall>amount'. \<exists>emi'. calculate_emi amount' rate term = Inr emi'" by (rule a)
    show "validate_loan_application today u amount rate term ltype = Inr (?issues, ?m)"
      by (rule v)
    show "apply_loan today u amount rate term ltype =
           Inr \<lparr>loan_user_id = user_id u, loan_amount = amount, interest_rate = rate,
                loan_term = term, loan_type = ltype,
                status = (if ?issues \<noteq> [] then ''Rejected'' else ''Pending''),
                rejection_reason = (if ?issues \<noteq> [] then Some ?issues else None)\<rparr>"
      by (rule l)
    show "status \<lparr>loan_user_id = user_id u, loan_amount = amount, interest_rate = rate,
                loan_term = term, loan_type = ltype,
                status = (if ?issues \<noteq> [] then ''Rejected'' else ''Pending''),
                rejection_reason = (if ?issues \<noteq> [] then Some ?issues else None)\<rparr> = ''Rejected''
        \<or> status \<lparr>loan_user_id = user_id u, loan_amount = amount, interest_rate = rate,
                loan_term = term, loan_type = ltype,
                status = (if ?issues \<noteq> [] then ''Rejected'' else ''Pending''),
                rejection_reason = (if ?issues \<noteq> [] then Some ?issues else None)\<rparr> = ''Pending''"
      by simp
    show "(MinimumInterestRate (min_interest_rate ?crit) \<in> set ?issues)
             = (rate < min_interest_rate ?crit)"
      by (rule i)
    show "rate \<le> 0 \<longrightarrow>
          status \<lparr>loan_user_id = user_id u, loan_amount = amount, interest_rate = rate,
                loan_term = term, loan_type = ltype,
                status = (if ?issues \<noteq> [] then ''Rejected'' else ''Pending''),
                rejection_reason = (if ?issues \<noteq> [] then Some ?issues else None)\<rparr> = ''Rejected''"
      using n by simp
  qed
qed

text \<open>
  A request at the rate -12 for one month: its installment is computed, for the principal
  -5 as well, and the application is stored as rejected.
\<close>

theorem no_argument_validation_witness:
  "(\<exists>emi'. calculate_emi (- 5) (- 12) 1 = Inr emi')
   \<and> (\<exists>l. apply_loan day_2025_06_15 applicant_3 1000 (- 12) 1 ''Personal Loan'' = Inr l
          \<and> status l = ''Rejected'')"
  using no_argument_validation [OF calculate_emi_negative_rate,
          of day_2025_06_15 applicant_3 "''Personal Loan''"]
  by auto

text \<open>
  A negative principal, a negative rate and a negative term each give an installment; the
  term 0 raises \<^verbatim>\<open>ZeroDivisionError\<close>; the request of an applicant who passes every
  check is stored as pending for a principal of -1000, and as rejected, with the
  interest-rate reason, for a rate of -12.
\<close>

theorem invalid_arguments_accepted:
  "calculate_emi (- 1000) 12 1 = Inr (- 1010)
   \<and> calculate_emi 1000 (- 12) 1 = Inr 990
   \<and> calculate_emi 1000 12 (- 1) = Inr (- 1000)
   \<and> calculate_emi 1000 12 0 = Inl ZeroDivisionError
   \<and> (\<exists>l. apply_loan day_2025_06_15 applicant_3 (- 1000) 12 1 ''Personal Loan'' = Inr l
          \<and> status l = ''Pending'')
   \<and> (\<exists>l. apply_loan day_2025_06_15 applicant_3 1000 (- 12) 1 ''Personal Loan'' = Inr l
          \<and> status l = ''Rejected''
          \<and> rejection_reason l = Some [MinimumInterestRate (21 / 2)])"
  by (simp add: calculate_emi_negative_principal calculate_emi_negative_rate
        calculate_emi_negative_term calculate_emi_zero_term
        apply_loan_returns [OF validate_negative_principal]
        apply_loan_returns [OF validate_negative_rate])

end
